theory Spec2Isabelle
  imports Complex_Main
begin

section \<open>Numbers and constants\<close>

text \<open>
  The calculation layer of \<^verbatim>\<open>BitcoinCalculator.js\<close> works on JavaScript Numbers.
  They are embedded as rationals: every finite Number is a rational, and the
  comparisons of the source are the comparisons of \<open>rat\<close>. The arithmetic of the
  estimator and of the valuation is carried out exactly. The quotient that
  \<^verbatim>\<open>formatUSD\<close> renders is rounded to binary64 as the source's division does, since
  the digits printed depend on it. \<open>NaN\<close>, which only \<open>parseFloat\<close> can produce here,
  is the value \<open>None\<close> of the parser's result; \<open>null\<close> is \<open>None\<close> of a result.
\<close>

definition MAX_BITCOIN_SUPPLY :: rat where
  "MAX_BITCOIN_SUPPLY = 21000000"

definition LARGEST_KNOWN_HOLDING :: rat where
  "LARGEST_KNOWN_HOLDING = 1100000"

definition TOTAL_ADDRESSES :: rat where
  "TOTAL_ADDRESSES = 100000000"

definition GLOBAL_POPULATION :: rat where
  "GLOBAL_POPULATION = 8000000000"

text \<open>\<^verbatim>\<open>Math.round\<close>: the nearest integer, a tie going towards plus infinity.\<close>

definition Math_round :: "rat \<Rightarrow> rat" where
  "Math_round x = of_int \<lfloor>x + 1 / 2\<rfloor>"

section \<open>The valuation\<close>

text \<open>The four market scenarios, in the order of their declaration.\<close>

record scenario =
  cap :: rat
  name :: string

definition CURRENT :: scenario where
  "CURRENT = \<lparr>cap = 1000000000000, name = ''Current Bitcoin Market Cap''\<rparr>"

definition GOLD :: scenario where
  "GOLD = \<lparr>cap = 13500000000000, name = ''Gold Market Cap''\<rparr>"

definition CURRENCIES :: scenario where
  "CURRENCIES = \<lparr>cap = 80000000000000, name = ''All Currencies''\<rparr>"

definition GLOBAL_WEALTH :: scenario where
  "GLOBAL_WEALTH = \<lparr>cap = 500000000000000, name = ''Global Wealth''\<rparr>"

definition MARKET_SCENARIOS :: "(string \<times> scenario) list" where
  "MARKET_SCENARIOS =
    [(''CURRENT'', CURRENT), (''GOLD'', GOLD), (''CURRENCIES'', CURRENCIES),
     (''GLOBAL_WEALTH'', GLOBAL_WEALTH)]"

definition calculateValueInScenario :: "rat \<Rightarrow> rat \<Rightarrow> rat" where
  "calculateValueInScenario btc marketCap =
    (let pricePerBTC = marketCap / MAX_BITCOIN_SUPPLY in btc * pricePerBTC)"

section \<open>The rarity estimator\<close>

text \<open>
  \<^verbatim>\<open>calculateExclusivity(btc, isGlobal)\<close>: the guard on the maximum supply returns
  \<open>null\<close>, the last band returns 0 directly, every other band assigns \<open>holdersAbove\<close>
  and falls through to \<^verbatim>\<open>Math.round\<close>.
\<close>

definition calculateExclusivity :: "rat \<Rightarrow> bool \<Rightarrow> rat option" where
  "calculateExclusivity btc isGlobal =
    (if btc > MAX_BITCOIN_SUPPLY then None
     else
       let base = (if isGlobal then GLOBAL_POPULATION else TOTAL_ADDRESSES) in
       if btc \<le> 0 then Some (Math_round base)
       else if btc < 1 / 10 then Some (Math_round (base * (8 / 100)))
       else if btc < 1 then Some (Math_round (base * (15 / 1000)))
       else if btc < 10 then Some (Math_round (base * (25 / 10000)))
       else if btc < 100 then Some (Math_round (base * (3 / 1000000)))
       else if btc < 1000 then
         Some (Math_round (if isGlobal then base * (5 / 10000000) else 1678))
       else if btc < 10000 then
         Some (Math_round (if isGlobal then base * (1 / 10000000) else 85))
       else if btc < 100000 then
         Some (Math_round (if isGlobal then base * (1 / 100000000) else 5))
       else if btc \<le> LARGEST_KNOWN_HOLDING then
         Some (Math_round (if isGlobal then base * (1 / 10000000000) else 1))
       else Some 0)"

section \<open>Rendering numbers\<close>

text \<open>
  The two built-in renderings that \<^verbatim>\<open>formatUSD\<close> and the messages of
  \<^verbatim>\<open>handleChange\<close> call, written out from ECMAScript. \<open>dec\<close> is the decimal
  numeral of a natural number.
\<close>

fun dec :: "nat \<Rightarrow> string" where
  "dec n =
    (if n < 10 then [''0123456789'' ! n]
     else dec (n div 10) @ [''0123456789'' ! (n mod 10)])"

declare dec.simps [simp del]

text \<open>
  Division of Numbers: the exact quotient rounded to the nearest binary64 value, a tie
  going to the even significand. \<open>binary_exponent\<close> is the \<open>e\<close> with
  \<open>2^e \<le> x < 2^(e+1)\<close> for a positive \<open>x\<close>; a binary64 value has 53 significant bits, so
  its last place is worth \<open>2^(e-52)\<close>, and never less than \<open>2^(-1074)\<close>. Quotients beyond
  the largest binary64 value, which the source would turn into \<open>Infinity\<close>, are outside
  the embedding; a Number divided by one of the thresholds of \<^verbatim>\<open>formatUSD\<close> is never
  one.
\<close>

fun bit_length :: "nat \<Rightarrow> nat" where
  "bit_length n = (if n = 0 then 0 else bit_length (n div 2) + 1)"

declare bit_length.simps [simp del]

definition binary_exponent :: "rat \<Rightarrow> int" where
  "binary_exponent x =
    (if 1 \<le> x then int (bit_length (nat \<lfloor>x\<rfloor>)) - 1
     else - int (bit_length (nat (\<lceil>1 / x\<rceil> - 1))))"

definition pow2 :: "int \<Rightarrow> rat" where
  "pow2 e = (if 0 \<le> e then 2 ^ nat e else 1 / 2 ^ nat (- e))"

definition round_half_even :: "rat \<Rightarrow> int" where
  "round_half_even y =
    (let f = \<lfloor>y\<rfloor>; r = y - of_int f in
     if r < 1 / 2 then f else if 1 / 2 < r then f + 1 else if even f then f else f + 1)"

definition round_double :: "rat \<Rightarrow> rat" where
  "round_double x =
    (if x = 0 then 0
     else
       let a = \<bar>x\<bar>;
           e = max (binary_exponent a) (- 1022);
           ulp = pow2 (e - 52)
       in sgn x * (of_int (round_half_even (a / ulp)) * ulp))"

definition double_div :: "rat \<Rightarrow> rat \<Rightarrow> rat" where
  "double_div a b = round_double (a / b)"

text \<open>
  \<^verbatim>\<open>Number::toString\<close> on a Number from \<open>10^21\<close> on, where it is in exponent notation:
  the digits \<open>s\<close> are the fewest, \<open>k\<close> of them, for which \<open>s * 10^(n-k)\<close> rounds to the
  Number, the nearest to it when several do (the even one on a tie); \<open>n - 1\<close> is the
  exponent printed. Seventeen digits identify every binary64 value, so the search over
  \<open>k\<close> finds one; the seventeen leading digits stand in otherwise.
\<close>

definition shortest_candidates :: "rat \<Rightarrow> nat \<Rightarrow> (nat \<times> nat) list" where
  "shortest_candidates x k =
    (let n0 = length (dec (nat \<lfloor>x\<rfloor>)) in
     filter (\<lambda>(s, n). 10 ^ (k - 1) \<le> s \<and> s < 10 ^ k \<and>
                       round_double (of_nat s * 10 ^ (n - k)) = x)
       (concat (map (\<lambda>n. let t = nat \<lfloor>x / 10 ^ (n - k)\<rfloor> in
                            if even t then [(t, n), (t + 1, n)] else [(t + 1, n), (t, n)])
                 [n0, n0 + 1])))"

definition exponent_notation :: "rat \<Rightarrow> string" where
  "exponent_notation x =
    (let (k, s, n) =
       (case find (\<lambda>k. shortest_candidates x k \<noteq> [])
               [1, 2, 3, 4, 5, 6, 7, 8, 9, 10, 11, 12, 13, 14, 15, 16, 17] of
          Some k \<Rightarrow>
            (k, arg_min_list (\<lambda>(s, n). \<bar>of_nat s * 10 ^ (n - k) - x\<bar>)
                  (shortest_candidates x k))
        | None \<Rightarrow>
            (let n0 = length (dec (nat \<lfloor>x\<rfloor>))
             in (17, nat \<lfloor>x / 10 ^ (n0 - 17)\<rfloor>, n0)));
         d = dec s
     in (if k = 1 then d else take 1 d @ ''.'' @ drop 1 d) @ ''e+'' @ dec (n - 1))"

text \<open>
  \<^verbatim>\<open>Number.prototype.toFixed(f)\<close>: the sign is split off; from \<open>10^21\<close> on the answer
  is that of \<^verbatim>\<open>Number::toString\<close>; below, \<open>n\<close> is the integer nearest to \<open>x * 10^f\<close>
  (the larger one on a tie), its digits are padded with zeros on the left to \<open>f + 1\<close>
  places, and the point goes before the last \<open>f\<close> digits.
\<close>

definition toFixed :: "nat \<Rightarrow> rat \<Rightarrow> string" where
  "toFixed f x =
    (let s = (if x < 0 then ''-'' else []);
         x = \<bar>x\<bar>;
         m = (if x \<ge> 10 ^ 21 then exponent_notation x
              else
                let n = nat \<lfloor>x * 10 ^ f + 1 / 2\<rfloor>;
                    m = dec n
                in if f \<noteq> 0 then
                     (let m = (if length m \<le> f
                               then replicate (f + 1 - length m) (CHR ''0'') @ m else m);
                          k = length m
                      in take (k - f) m @ ''.'' @ drop (k - f) m)
                   else m)
     in s @ m)"

text \<open>
  \<^verbatim>\<open>Number.prototype.toLocaleString()\<close> with no arguments, in the \<open>en-US\<close> locale:
  at most three fraction digits, rounded half away from zero, trailing zeros of the
  fraction dropped, and the integer part grouped in threes by commas.
\<close>

fun grouped :: "nat \<Rightarrow> string" where
  "grouped n =
    (if n < 1000 then dec n
     else grouped (n div 1000) @ '','' @
       (let d = dec (n mod 1000) in replicate (3 - length d) (CHR ''0'') @ d))"

declare grouped.simps [simp del]

definition toLocaleString :: "rat \<Rightarrow> string" where
  "toLocaleString x =
    (let s = (if x < 0 then ''-'' else []);
         n = nat \<lfloor>\<bar>x\<bar> * 1000 + 1 / 2\<rfloor>;
         d = dec (n mod 1000);
         frac = rev (dropWhile (\<lambda>c. c = CHR ''0'')
                  (rev (replicate (3 - length d) (CHR ''0'') @ d)))
     in s @ grouped (n div 1000) @ (if frac = [] then [] else ''.'' @ frac))"

section \<open>The formatter\<close>

definition formatUSD :: "rat \<Rightarrow> string" where
  "formatUSD amount =
    (let trillion = 10 ^ 12; billion = 10 ^ 9; million = 10 ^ 6 in
     if amount \<ge> trillion then ''$'' @ toFixed 2 (double_div amount trillion) @ ''T''
     else if amount \<ge> billion then ''$'' @ toFixed 2 (double_div amount billion) @ ''B''
     else if amount \<ge> million then ''$'' @ toFixed 2 (double_div amount million) @ ''M''
     else ''$'' @ toLocaleString amount)"

section \<open>The input handler\<close>

text \<open>
  The component's state cells. \<^verbatim>\<open>handleChange\<close> stores the raw text, clears the
  error, parses, and sets \<open>error\<close> and \<open>result\<close> by the branch taken. \<^verbatim>\<open>parseFloat\<close>
  is a parameter: any function from the text to a Number, \<open>None\<close> standing for \<open>NaN\<close>.
\<close>

record state =
  balance :: string
  result :: "rat option"
  error :: string
  showGlobal :: bool

definition handleChange :: "(string \<Rightarrow> rat option) \<Rightarrow> string \<Rightarrow> state \<Rightarrow> state" where
  "handleChange parseFloat val st =
    (let st = st\<lparr>balance := val\<rparr>;
         st = st\<lparr>error := []\<rparr>
     in case parseFloat val of
          None \<Rightarrow> st\<lparr>result := None\<rparr>
        | Some btc \<Rightarrow>
            if btc \<ge> 0 then
              if btc > MAX_BITCOIN_SUPPLY then
                st\<lparr>error := ''Invalid amount: exceeds maximum Bitcoin supply of '' @
                             toLocaleString MAX_BITCOIN_SUPPLY @ '' BTC'',
                   result := None\<rparr>
              else if btc > LARGEST_KNOWN_HOLDING then
                st\<lparr>error := ''No known addresses hold more than '' @
                             toLocaleString LARGEST_KNOWN_HOLDING @ '' BTC'',
                   result := Some 0\<rparr>
              else st\<lparr>result := calculateExclusivity btc (showGlobal st)\<rparr>
            else st\<lparr>result := None\<rparr>)"

section \<open>The band table of the specification\<close>

text \<open>
  The rarity estimator as the specification words it: a population mode, a base
  population per mode, and eleven bands read in order, the first band containing the
  amount deciding. A band gives a fraction of the base, which is multiplied out and
  rounded, or a fixed count; the last band has no defined result.
\<close>

datatype PopulationMode = CurrentAddresses | GlobalPopulation

datatype amount_range =
    UpTo rat
  | Open rat rat
  | HalfOpen rat rat
  | Closed rat rat
  | Above rat

fun in_range :: "amount_range \<Rightarrow> rat \<Rightarrow> bool" where
  "in_range (UpTo h) a = (a \<le> h)"
| "in_range (Open l h) a = (l < a \<and> a < h)"
| "in_range (HalfOpen l h) a = (l \<le> a \<and> a < h)"
| "in_range (Closed l h) a = (l \<le> a \<and> a \<le> h)"
| "in_range (Above l) a = (l < a)"

datatype band_value = Fraction rat | FixedCount rat | Undefined

record band =
  range :: amount_range
  current :: band_value
  global :: band_value

definition spec_bands :: "band list" where
  "spec_bands =
    [\<lparr>range = UpTo 0, current = Fraction 1, global = Fraction 1\<rparr>,
     \<lparr>range = Open 0 (1 / 10), current = Fraction (8 / 100), global = Fraction (8 / 100)\<rparr>,
     \<lparr>range = HalfOpen (1 / 10) 1,
      current = Fraction (15 / 1000), global = Fraction (15 / 1000)\<rparr>,
     \<lparr>range = HalfOpen 1 10,
      current = Fraction (25 / 10000), global = Fraction (25 / 10000)\<rparr>,
     \<lparr>range = HalfOpen 10 100,
      current = Fraction (3 / 1000000), global = Fraction (3 / 1000000)\<rparr>,
     \<lparr>range = HalfOpen 100 1000,
      current = FixedCount 1678, global = Fraction (5 / 10000000)\<rparr>,
     \<lparr>range = HalfOpen 1000 10000,
      current = FixedCount 85, global = Fraction (1 / 10000000)\<rparr>,
     \<lparr>range = HalfOpen 10000 100000,
      current = FixedCount 5, global = Fraction (1 / 100000000)\<rparr>,
     \<lparr>range = Closed 100000 1100000,
      current = FixedCount 1, global = Fraction (1 / 10000000000)\<rparr>,
     \<lparr>range = Above 1100000, current = FixedCount 0, global = FixedCount 0\<rparr>,
     \<lparr>range = Above 21000000, current = Undefined, global = Undefined\<rparr>]"

definition spec_base :: "PopulationMode \<Rightarrow> rat" where
  "spec_base mode =
    (case mode of CurrentAddresses \<Rightarrow> 100000000 | GlobalPopulation \<Rightarrow> 8000000000)"

fun spec_result :: "rat \<Rightarrow> band_value \<Rightarrow> rat option" where
  "spec_result base (Fraction f) = Some (Math_round (f * base))"
| "spec_result base (FixedCount c) = Some c"
| "spec_result base Undefined = None"

definition spec_estimate :: "rat \<Rightarrow> PopulationMode \<Rightarrow> rat option" where
  "spec_estimate amount mode =
    (case find (\<lambda>b. in_range (range b) amount) spec_bands of
       None \<Rightarrow> None
     | Some b \<Rightarrow>
         spec_result (spec_base mode)
           (case mode of CurrentAddresses \<Rightarrow> current b | GlobalPopulation \<Rightarrow> global b))"

text \<open>The toggle of the component as a population mode.\<close>

definition isGlobal_of :: "PopulationMode \<Rightarrow> bool" where
  "isGlobal_of mode = (mode = GlobalPopulation)"

text \<open>
  "Two decimal places" as the specification words the formatter's tiers: the amount in
  hundredths, rounded to the nearest, written as its integer part, a point, and exactly
  two digits.
\<close>

definition spec_two_decimals :: "rat \<Rightarrow> string" where
  "spec_two_decimals x =
    (let n = nat \<lfloor>x * 100 + 1 / 2\<rfloor> in
     dec (n div 100) @ ''.'' @
       [''0123456789'' ! (n div 10 mod 10), ''0123456789'' ! (n mod 10)])"

section \<open>Auxiliary facts\<close>

lemmas constants_defs =
  MAX_BITCOIN_SUPPLY_def LARGEST_KNOWN_HOLDING_def TOTAL_ADDRESSES_def GLOBAL_POPULATION_def

lemma floor_rat_numeral [simp]:
  "\<lfloor>numeral a / numeral b :: rat\<rfloor> = numeral a div numeral b"
  using floor_divide_of_int_eq [of "numeral a" "numeral b", where ?'a = rat] by simp

lemma floor_rat_one_numeral [simp]: "\<lfloor>1 / numeral b :: rat\<rfloor> = 1 div numeral b"
  using floor_divide_of_int_eq [of 1 "numeral b", where ?'a = rat] by simp

lemma Math_round_of_int [simp]: "Math_round (of_int n) = of_int n"
  by (simp add: Math_round_def floor_eq_iff)

lemma Math_round_numeral [simp]: "Math_round (numeral k) = numeral k"
  using Math_round_of_int [of "numeral k"] by simp

lemma replicate_2: "replicate 2 c = [c, c]"
  by (simp add: numeral_2_eq_2)

lemma toLocaleString_MAX_BITCOIN_SUPPLY:
  "toLocaleString MAX_BITCOIN_SUPPLY = ''21,000,000''"
  by (simp add: toLocaleString_def constants_defs Let_def grouped.simps dec.simps replicate_2)

lemma toLocaleString_LARGEST_KNOWN_HOLDING:
  "toLocaleString LARGEST_KNOWN_HOLDING = ''1,100,000''"
  by (simp add: toLocaleString_def constants_defs Let_def grouped.simps dec.simps replicate_2)

lemma dec_nonempty: "0 < length (dec n)"
  by (subst dec.simps) simp

text \<open>
  \<open>toFixed 2\<close> on a non-negative Number below \<open>10^21\<close>: the padding and the split of
  the digit string give the integer part and the two digits of the hundredths, in each
  of the three shapes of \<open>n\<close> (one digit, two digits, more).
\<close>

lemma toFixed_2_nonneg:
  assumes "0 \<le> x" and "x < 10 ^ 21"
  shows "toFixed 2 x = spec_two_decimals x"
proof -
  define n where "n = nat \<lfloor>x * 100 + 1 / 2\<rfloor>"
  have sign: "\<not> x < 0" and abs: "\<bar>x\<bar> = x" and small: "\<not> 10 ^ 21 \<le> x"
    using assms by simp_all
  have unfold: "toFixed 2 x =
      (let m = dec n;
           m = (if length m \<le> 2 then replicate (3 - length m) (CHR ''0'') @ m else m)
       in take (length m - 2) m @ ''.'' @ drop (length m - 2) m)"
    unfolding toFixed_def Let_def abs n_def using sign small by simp
  have goal: "spec_two_decimals x =
      dec (n div 100) @ ''.'' @
        [''0123456789'' ! (n div 10 mod 10), ''0123456789'' ! (n mod 10)]"
    by (simp add: spec_two_decimals_def n_def Let_def)
  consider "n < 10" | "10 \<le> n" "n < 100" | "100 \<le> n"
    by linarith
  then show ?thesis
  proof cases
    case 1
    then have "dec n = [''0123456789'' ! n]" and "dec (n div 100) = ''0''"
      by (simp_all add: dec.simps)
    with 1 show ?thesis
      unfolding unfold goal by (simp add: replicate_2)
  next
    case 2
    then have "dec n = [''0123456789'' ! (n div 10), ''0123456789'' ! (n mod 10)]"
      and "dec (n div 100) = ''0''"
      by (simp_all add: dec.simps [of n] dec.simps [of "n div 10"] dec.simps [of 0])
    with 2 show ?thesis
      unfolding unfold goal by simp
  next
    case 3
    then have "\<not> n < 10" and "\<not> n div 10 < 10"
      by simp_all
    then have "dec n = dec (n div 100) @
        [''0123456789'' ! (n div 10 mod 10), ''0123456789'' ! (n mod 10)]"
      by (simp add: dec.simps [of n] dec.simps [of "n div 10"] div_mult2_eq [symmetric])
    moreover have "0 < length (dec (n div 100))"
      by (rule dec_nonempty)
    ultimately show ?thesis
      unfolding unfold goal by (simp add: Let_def)
  qed
qed

text \<open>
  Rounding to binary64 keeps the sign, and at most doubles a quotient that is at least 1:
  the last place of such a quotient is worth no more than the quotient itself.
\<close>

lemma bit_length_pos: "0 < n \<Longrightarrow> 0 < bit_length n"
  by (subst bit_length.simps) simp

lemma bit_length_lower: "0 < n \<Longrightarrow> 2 ^ (bit_length n - 1) \<le> n"
proof (induction n rule: bit_length.induct)
  case (1 n)
  show ?case
  proof (cases "n div 2 = 0")
    case True
    with 1 have "n = 1"
      by (simp add: div_eq_0_iff)
    then show ?thesis
      by (simp add: bit_length.simps)
  next
    case False
    then have pos: "0 < n div 2"
      by simp
    with 1 have ih: "2 ^ (bit_length (n div 2) - 1) \<le> n div 2"
      by simp
    have "bit_length n = bit_length (n div 2) + 1"
      using 1 by (subst bit_length.simps) simp
    then have "2 ^ (bit_length n - 1) = 2 * 2 ^ (bit_length (n div 2) - 1)"
      using bit_length_pos [OF pos] by (cases "bit_length (n div 2)") simp_all
    also have "\<dots> \<le> 2 * (n div 2)"
      using ih by simp
    also have "\<dots> \<le> n"
      by simp
    finally show ?thesis .
  qed
qed

lemma pow2_pos: "0 < pow2 e"
  by (simp add: pow2_def)

lemma binary_exponent_lower:
  assumes "1 \<le> x"
  shows "0 \<le> binary_exponent x" and "pow2 (binary_exponent x) \<le> x"
proof -
  define n where "n = nat \<lfloor>x\<rfloor>"
  have n: "0 < n"
    using assms by (simp add: n_def)
  have e: "binary_exponent x = int (bit_length n) - 1"
    using assms by (simp add: binary_exponent_def n_def)
  show nonneg: "0 \<le> binary_exponent x"
    using bit_length_pos [OF n] by (simp add: e)
  have "pow2 (binary_exponent x) = 2 ^ (bit_length n - 1)"
    using nonneg bit_length_pos [OF n]
    by (simp add: pow2_def e nat_diff_distrib' of_nat_diff)
  also have "\<dots> = rat_of_nat (2 ^ (bit_length n - 1))"
    by simp
  also have "\<dots> \<le> rat_of_nat n"
    using bit_length_lower [OF n] by (simp only: of_nat_le_iff)
  also have "\<dots> \<le> x"
    using assms by (simp add: n_def)
  finally show "pow2 (binary_exponent x) \<le> x" .
qed

lemma round_half_even_cases:
  "round_half_even y = \<lfloor>y\<rfloor> \<or> round_half_even y = \<lfloor>y\<rfloor> + 1"
  by (simp add: round_half_even_def Let_def)

lemma round_half_even_upper: "rat_of_int (round_half_even y) \<le> y + 1"
proof -
  have below: "rat_of_int \<lfloor>y\<rfloor> \<le> y"
    by (rule of_int_floor_le)
  consider "round_half_even y = \<lfloor>y\<rfloor>" | "round_half_even y = \<lfloor>y\<rfloor> + 1"
    using round_half_even_cases by blast
  then show ?thesis
  proof cases
    case 1
    then have "rat_of_int (round_half_even y) = rat_of_int \<lfloor>y\<rfloor>"
      by simp
    with below show ?thesis
      by linarith
  next
    case 2
    then have "rat_of_int (round_half_even y) = rat_of_int \<lfloor>y\<rfloor> + 1"
      by simp
    with below show ?thesis
      by linarith
  qed
qed

lemma round_half_even_nonneg:
  assumes "0 \<le> y"
  shows "0 \<le> round_half_even y"
proof -
  have "0 \<le> \<lfloor>y\<rfloor>"
    using assms by simp
  with round_half_even_cases [of y] show ?thesis
    by linarith
qed

lemma round_double_nonneg:
  assumes "0 \<le> x"
  shows "0 \<le> round_double x"
proof (cases "x = 0")
  case True
  then show ?thesis
    by (simp add: round_double_def)
next
  case False
  define ulp where "ulp = pow2 (max (binary_exponent x) (- 1022) - 52)"
  have ulp: "0 < ulp"
    by (simp add: ulp_def pow2_pos)
  have "0 \<le> round_half_even (x / ulp)"
    using assms ulp by (intro round_half_even_nonneg) simp
  moreover have "round_double x = of_int (round_half_even (x / ulp)) * ulp"
    using assms False by (simp add: round_double_def Let_def ulp_def)
  ultimately show ?thesis
    using ulp by simp
qed

lemma round_double_le_twice:
  assumes "1 \<le> x"
  shows "round_double x \<le> 2 * x"
proof -
  define e where "e = binary_exponent x"
  define ulp where "ulp = pow2 (e - 52)"
  have e: "0 \<le> e" and below: "pow2 e \<le> x"
    using binary_exponent_lower [OF assms] by (simp_all add: e_def)
  have ulp: "0 < ulp"
    by (simp add: ulp_def pow2_pos)
  have "ulp \<le> pow2 e"
  proof (cases "52 \<le> e")
    case True
    then have "ulp = 2 ^ nat (e - 52)" and "pow2 e = 2 ^ nat e"
      using e by (simp_all add: ulp_def pow2_def)
    moreover have "(2::rat) ^ nat (e - 52) \<le> 2 ^ nat e"
      by (rule power_increasing) simp_all
    ultimately show ?thesis
      by simp
  next
    case False
    then have "ulp = 1 / 2 ^ nat (52 - e)" and "pow2 e = 2 ^ nat e"
      using e by (simp_all add: ulp_def pow2_def)
    moreover have "1 / 2 ^ nat (52 - e) \<le> (1::rat)"
      by simp
    moreover have "(1::rat) \<le> 2 ^ nat e"
      by simp
    ultimately show ?thesis
      by linarith
  qed
  with below have small: "ulp \<le> x"
    by simp
  have rounded: "round_double x = of_int (round_half_even (x / ulp)) * ulp"
    using assms e by (simp add: round_double_def Let_def ulp_def e_def max_def)
  have "of_int (round_half_even (x / ulp)) * ulp \<le> (x / ulp + 1) * ulp"
    using round_half_even_upper [of "x / ulp"] ulp by (intro mult_right_mono) simp_all
  also have "\<dots> = x + ulp"
    using ulp by (simp add: field_simps)
  also have "\<dots> \<le> 2 * x"
    using small by simp
  finally show ?thesis
    by (simp only: rounded)
qed

text \<open>
  Evaluating a rounding: with the exponent and the rounded significand at hand,
  \<open>round_double\<close> is their product with the value of the last place.
\<close>

lemma round_double_eval:
  assumes "0 < x" and "binary_exponent x = e" and "- 1022 \<le> e"
    and "round_half_even (x / pow2 (e - 52)) = m"
  shows "round_double x = of_int m * pow2 (e - 52)"
  using assms by (simp add: round_double_def Let_def max_absorb1)

lemma round_double_1: "round_double 1 = 1"
proof -
  have "binary_exponent 1 = 0"
    by (simp add: binary_exponent_def bit_length.simps)
  moreover have "round_half_even (1 / pow2 (0 - 52)) = 2 ^ 52"
    by (simp add: pow2_def round_half_even_def Let_def)
  ultimately have "round_double 1 = of_int (2 ^ 52) * pow2 (0 - 52)"
    by (intro round_double_eval) simp_all
  then show ?thesis
    by (simp add: pow2_def)
qed

text \<open>
  In the global-population mode the estimate never grows with the amount, from 0 to the
  largest known holding.
\<close>

lemma calculateExclusivity_global_antimono:
  assumes "0 \<le> a1" and "a1 \<le> a2" and "a2 \<le> LARGEST_KNOWN_HOLDING"
  shows "\<exists>m n :: nat. calculateExclusivity a1 True = Some (of_nat m) \<and>
           calculateExclusivity a2 True = Some (of_nat n) \<and> n \<le> m"
  using assms by (simp add: calculateExclusivity_def constants_defs Math_round_def)

section \<open>Properties\<close>

text \<open>
  Claim C1. For every amount from 0 to the largest known holding and each population
  mode, the estimator of the source returns what the band table of the specification
  gives: the first band containing the amount decides, and the result is the rounded
  product of the band's fraction and the base population, or the band's fixed count.
\<close>

theorem C1_estimator_refines_band_table:
  assumes "0 \<le> amount" and "amount \<le> LARGEST_KNOWN_HOLDING"
  shows "calculateExclusivity amount (isGlobal_of mode) = spec_estimate amount mode"
  using assms
  by (cases mode)
     (simp_all add: calculateExclusivity_def spec_estimate_def spec_bands_def spec_base_def
        isGlobal_of_def constants_defs Math_round_def)

text \<open>The refinement at the amount 500, where the two modes take different bands.\<close>

theorem C1_estimator_refines_band_table_witness:
  "(0::rat) \<le> 500 \<and> 500 \<le> LARGEST_KNOWN_HOLDING \<and>
   calculateExclusivity 500 (isGlobal_of CurrentAddresses) = spec_estimate 500 CurrentAddresses \<and>
   calculateExclusivity 500 (isGlobal_of GlobalPopulation) = spec_estimate 500 GlobalPopulation \<and>
   spec_estimate 500 CurrentAddresses = Some 1678 \<and>
   spec_estimate 500 GlobalPopulation = Some 4000"
proof -
  have lo: "(0::rat) \<le> 500"
    by simp
  have hi: "500 \<le> LARGEST_KNOWN_HOLDING"
    by (simp add: constants_defs)
  show ?thesis
    using lo hi
      C1_estimator_refines_band_table [OF lo hi, of CurrentAddresses]
      C1_estimator_refines_band_table [OF lo hi, of GlobalPopulation]
    by (simp add: spec_estimate_def spec_bands_def spec_base_def Math_round_def)
qed

text \<open>
  Claim C2. The claim asks for a count that never grows with the amount, in a fixed
  mode. In the address mode the source gives 300 addresses for 50 coins and 1678
  addresses for 500 coins: the count grows between the band from 10 to 100 and the band
  from 100 to 1000.
\<close>

theorem C2_address_mode_count_grows:
  "calculateExclusivity 50 False = Some 300 \<and> calculateExclusivity 500 False = Some 1678"
  by (simp add: calculateExclusivity_def constants_defs Math_round_def)

text \<open>
  Claim C3, amended. For the amount 1.5 in the address mode the estimator returns
  round(100,000,000 * 0.0025) = 250,000, the band from 1 to 10 deciding; the valuation
  under the CURRENT scenario is 1.5 * (1e12 / 21,000,000), which is within half a cent of
  71,428.57 and is rendered to two places as 71428.57.
\<close>

theorem C3_one_and_a_half_coins:
  "calculateExclusivity (3 / 2) False = Some 250000 \<and>
   Math_round (100000000 * (25 / 10000)) = 250000 \<and>
   calculateValueInScenario (3 / 2) (cap CURRENT) = 3 / 2 * (1000000000000 / 21000000) \<and>
   \<bar>calculateValueInScenario (3 / 2) (cap CURRENT) - 7142857 / 100\<bar> < 1 / 200 \<and>
   toFixed 2 (calculateValueInScenario (3 / 2) (cap CURRENT)) = ''71428.57''"
  by (simp add: calculateExclusivity_def constants_defs Math_round_def
      calculateValueInScenario_def CURRENT_def toFixed_def dec.simps Let_def)

text \<open>
  Claim C3 as written: the estimate for 1.5 coins in the address mode is not the
  1,500,000 = round(100,000,000 * 0.015) of the claim.
\<close>

theorem C3_estimate_is_not_1500000:
  "Math_round (100000000 * (15 / 1000)) = 1500000 \<and>
   calculateExclusivity (3 / 2) False \<noteq> Some 1500000"
  by (simp add: calculateExclusivity_def constants_defs Math_round_def)

text \<open>
  Claim C4. When the text parses to an amount above the largest known holding and not
  above the maximum supply, the handler stores the text, sets the advisory message that
  names the threshold of 1,100,000, and sets the result to 0, not to \<open>null\<close>; nothing
  else of the state changes.
\<close>

theorem C4_exceeds_largest_known:
  assumes "parseFloat val = Some btc"
    and "LARGEST_KNOWN_HOLDING < btc" and "btc \<le> MAX_BITCOIN_SUPPLY"
  shows "handleChange parseFloat val st =
    st\<lparr>balance := val,
       error := ''No known addresses hold more than 1,100,000 BTC'',
       result := Some 0\<rparr>"
  using assms unfolding handleChange_def Let_def toLocaleString_LARGEST_KNOWN_HOLDING
  by (simp add: constants_defs)

text \<open>The text 1500000 entered into the initial state.\<close>

theorem C4_exceeds_largest_known_witness:
  "LARGEST_KNOWN_HOLDING < 1500000 \<and> 1500000 \<le> MAX_BITCOIN_SUPPLY \<and>
   handleChange (\<lambda>s. if s = ''1500000'' then Some 1500000 else None) ''1500000''
     \<lparr>balance = [], result = None, error = [], showGlobal = False\<rparr> =
   \<lparr>balance = ''1500000'', result = Some 0,
    error = ''No known addresses hold more than 1,100,000 BTC'', showGlobal = False\<rparr>"
proof -
  let ?p = "\<lambda>s. if s = ''1500000'' then Some (1500000::rat) else None"
  have p: "?p ''1500000'' = Some 1500000"
    by simp
  have lo: "LARGEST_KNOWN_HOLDING < 1500000"
    by (simp add: constants_defs)
  have hi: "1500000 \<le> MAX_BITCOIN_SUPPLY"
    by (simp add: constants_defs)
  show ?thesis
    using lo hi
      C4_exceeds_largest_known [of ?p "''1500000''" 1500000
        "\<lparr>balance = [], result = None, error = [], showGlobal = False\<rparr>", OF p lo hi]
    by simp
qed

text \<open>
  Claim C5. When the text parses to an amount above the maximum supply, the handler
  stores the text, sets the error message that names the maximum supply of 21,000,000,
  and sets the result to \<open>null\<close>: no rarity result is computed.
\<close>

theorem C5_exceeds_supply:
  assumes "parseFloat val = Some btc" and "MAX_BITCOIN_SUPPLY < btc"
  shows "handleChange parseFloat val st =
    st\<lparr>balance := val,
       error := ''Invalid amount: exceeds maximum Bitcoin supply of 21,000,000 BTC'',
       result := None\<rparr>"
  using assms unfolding handleChange_def Let_def toLocaleString_MAX_BITCOIN_SUPPLY
  by (simp add: constants_defs)

text \<open>The text 21000001 entered into a state that shows a result.\<close>

theorem C5_exceeds_supply_witness:
  "MAX_BITCOIN_SUPPLY < 21000001 \<and>
   handleChange (\<lambda>s. if s = ''21000001'' then Some 21000001 else None) ''21000001''
     \<lparr>balance = ''5'', result = Some 250000, error = [], showGlobal = False\<rparr> =
   \<lparr>balance = ''21000001'', result = None,
    error = ''Invalid amount: exceeds maximum Bitcoin supply of 21,000,000 BTC'',
    showGlobal = False\<rparr>"
proof -
  let ?p = "\<lambda>s. if s = ''21000001'' then Some (21000001::rat) else None"
  have p: "?p ''21000001'' = Some 21000001"
    by simp
  have gt: "MAX_BITCOIN_SUPPLY < 21000001"
    by (simp add: constants_defs)
  show ?thesis
    using gt
      C5_exceeds_supply [of ?p "''21000001''" 21000001
        "\<lparr>balance = ''5'', result = Some 250000, error = [], showGlobal = False\<rparr>", OF p gt]
    by simp
qed

text \<open>
  Claim C6. For every amount and every scenario the valuation is the amount times the
  price per coin, the scenario's capitalisation divided by the maximum supply of
  21,000,000.
\<close>

theorem C6_valuation_formula:
  "calculateValueInScenario amount (cap s) = amount * (cap s / MAX_BITCOIN_SUPPLY) \<and>
   MAX_BITCOIN_SUPPLY = 21000000"
  by (simp add: calculateValueInScenario_def constants_defs)

text \<open>
  Claim C7. The valuation is linear in the amount: twice the amount is worth twice the
  value, in every scenario, exactly over the rationals.
\<close>

theorem C7_valuation_doubles:
  "calculateValueInScenario (2 * a) (cap s) = 2 * calculateValueInScenario a (cap s)"
  by (simp add: calculateValueInScenario_def)

text \<open>
  Claim C8, amended. The formatter at the three boundary cases, and tier by tier: from
  1e12 the amount is divided by 1e12 and the quotient, a binary64 value, is rendered to
  two decimal places with the suffix T as long as it is below 1e21; from 1e9 likewise
  with B, from 1e6 with M, the first threshold reached deciding; below 1e6 the amount is
  rendered by the locale, with the thousands separator. Every rendering starts with the
  dollar sign.
\<close>

theorem C8_formatUSD_tiers:
  "formatUSD 999999 = ''$999,999'' \<and>
   formatUSD 1000000 = ''$1.00M'' \<and>
   formatUSD 1000000000000 = ''$1.00T'' \<and>
   (10 ^ 12 \<le> amount \<and> double_div amount (10 ^ 12) < 10 ^ 21 \<longrightarrow>
      formatUSD amount = ''$'' @ spec_two_decimals (double_div amount (10 ^ 12)) @ ''T'') \<and>
   (10 ^ 9 \<le> amount \<and> amount < 10 ^ 12 \<longrightarrow>
      formatUSD amount = ''$'' @ spec_two_decimals (double_div amount (10 ^ 9)) @ ''B'') \<and>
   (10 ^ 6 \<le> amount \<and> amount < 10 ^ 9 \<longrightarrow>
      formatUSD amount = ''$'' @ spec_two_decimals (double_div amount (10 ^ 6)) @ ''M'') \<and>
   (amount < 10 ^ 6 \<longrightarrow> formatUSD amount = ''$'' @ toLocaleString amount)"
proof -
  have a: "formatUSD 999999 = ''$999,999''"
    by (simp add: formatUSD_def toLocaleString_def Let_def grouped.simps dec.simps)
  have one: "toFixed 2 1 = ''1.00''"
    by (simp add: toFixed_def Let_def dec.simps)
  have b: "formatUSD 1000000 = ''$1.00M''"
    by (simp add: formatUSD_def double_div_def round_double_1 one)
  have c: "formatUSD 1000000000000 = ''$1.00T''"
    by (simp add: formatUSD_def double_div_def round_double_1 one)
  have d: "formatUSD amount = ''$'' @ spec_two_decimals (double_div amount (10 ^ 12)) @ ''T''"
    if "10 ^ 12 \<le> amount" and "double_div amount (10 ^ 12) < 10 ^ 21"
  proof -
    have "0 \<le> double_div amount (10 ^ 12)"
      unfolding double_div_def using that(1) by (intro round_double_nonneg) simp
    then have "toFixed 2 (double_div amount (10 ^ 12)) =
        spec_two_decimals (double_div amount (10 ^ 12))"
      using that(2) by (rule toFixed_2_nonneg)
    then show ?thesis
      using that(1) by (simp add: formatUSD_def)
  qed
  have tier: "toFixed 2 (double_div amount t) = spec_two_decimals (double_div amount t)"
    if "0 < t" and "t \<le> amount" and "amount < 1000 * t" for t
  proof -
    have q: "1 \<le> amount / t" and r: "amount / t < 1000"
      using that by (simp_all add: field_simps)
    have "round_double (amount / t) \<le> 2 * (amount / t)"
      using q by (rule round_double_le_twice)
    also have "2 * (amount / t) < 10 ^ 21"
      using r by simp
    finally have "double_div amount t < 10 ^ 21"
      by (simp only: double_div_def)
    moreover have "0 \<le> double_div amount t"
      unfolding double_div_def using q by (intro round_double_nonneg) simp
    ultimately show ?thesis
      by (intro toFixed_2_nonneg)
  qed
  have e: "formatUSD amount = ''$'' @ spec_two_decimals (double_div amount (10 ^ 9)) @ ''B''"
    if "10 ^ 9 \<le> amount" and "amount < 10 ^ 12"
    using that tier [of "10 ^ 9"] by (simp add: formatUSD_def)
  have f: "formatUSD amount = ''$'' @ spec_two_decimals (double_div amount (10 ^ 6)) @ ''M''"
    if "10 ^ 6 \<le> amount" and "amount < 10 ^ 9"
    using that tier [of "10 ^ 6"] by (simp add: formatUSD_def)
  have g: "formatUSD amount = ''$'' @ toLocaleString amount" if "amount < 10 ^ 6"
    using that by (simp add: formatUSD_def)
  from a b c d e f g show ?thesis
    by blast
qed

text \<open>
  One Number in each tier: 13.5e12, the 1035000000 whose quotient by 1e9 is the binary64
  value just below 1.035, the 1005000 whose quotient by 1e6 is the one just below 1.005,
  and 71428.5.
\<close>

theorem C8_formatUSD_tiers_witness:
  "formatUSD 13500000000000 = ''$13.50T'' \<and>
   double_div 1035000000 (10 ^ 9) = 4661225614328463 / 4503599627370496 \<and>
   formatUSD 1035000000 = ''$1.03B'' \<and>
   double_div 1005000 (10 ^ 6) = 1131529406376837 / 1125899906842624 \<and>
   formatUSD 1005000 = ''$1.00M'' \<and>
   formatUSD (142857 / 2) = ''$71,428.5''"
proof -
  have qt: "double_div 13500000000000 1000000000000 = 27 / 2"
  proof -
    have "binary_exponent (27 / 2) = 3"
      by (simp add: binary_exponent_def bit_length.simps)
    moreover have "round_half_even (27 / 2 / pow2 (3 - 52)) = 27 * 2 ^ 48"
      by (simp add: pow2_def round_half_even_def Let_def)
    ultimately have "round_double (27 / 2) = of_int (27 * 2 ^ 48) * pow2 (3 - 52)"
      by (intro round_double_eval) simp_all
    then show ?thesis
      by (simp add: double_div_def pow2_def)
  qed
  have qb: "double_div 1035000000 1000000000 = 4661225614328463 / 4503599627370496"
  proof -
    have "binary_exponent (207 / 200) = 0"
      by (simp add: binary_exponent_def bit_length.simps)
    moreover have "round_half_even (207 / 200 / pow2 (0 - 52)) = 4661225614328463"
      by (simp add: pow2_def round_half_even_def Let_def)
    ultimately have "round_double (207 / 200) = of_int 4661225614328463 * pow2 (0 - 52)"
      by (intro round_double_eval) simp_all
    then show ?thesis
      by (simp add: double_div_def pow2_def)
  qed
  have qm: "double_div 1005000 1000000 = 1131529406376837 / 1125899906842624"
  proof -
    have "binary_exponent (201 / 200) = 0"
      by (simp add: binary_exponent_def bit_length.simps)
    moreover have "round_half_even (201 / 200 / pow2 (0 - 52)) = 4526117625507348"
      by (simp add: pow2_def round_half_even_def Let_def)
    ultimately have "round_double (201 / 200) = of_int 4526117625507348 * pow2 (0 - 52)"
      by (intro round_double_eval) simp_all
    then show ?thesis
      by (simp add: double_div_def pow2_def)
  qed
  have t: "formatUSD 13500000000000 = ''$13.50T''"
    using C8_formatUSD_tiers [of 13500000000000]
    by (simp add: qt spec_two_decimals_def dec.simps)
  have b: "formatUSD 1035000000 = ''$1.03B''"
    using C8_formatUSD_tiers [of 1035000000]
    by (simp add: qb spec_two_decimals_def dec.simps)
  have m: "formatUSD 1005000 = ''$1.00M''"
    using C8_formatUSD_tiers [of 1005000]
    by (simp add: qm spec_two_decimals_def dec.simps)
  have u: "formatUSD (142857 / 2) = ''$71,428.5''"
    using C8_formatUSD_tiers [of "142857 / 2"]
    by (simp add: toLocaleString_def Let_def grouped.simps dec.simps)
  from t qb b qm m u show ?thesis
    by simp
qed

text \<open>
  Claim C8 as written: the Number 1e33 is in the T tier, its quotient by 1e12 is the
  Number 1e21, and the formatter prints it in exponent notation, not to two decimal
  places.
\<close>

theorem C8_T_tier_exponent_notation:
  "round_double (10 ^ 33) = 999999999999999945575230987042816 \<and>
   (10::rat) ^ 12 \<le> 999999999999999945575230987042816 \<and>
   double_div 999999999999999945575230987042816 (10 ^ 12) = 10 ^ 21 \<and>
   formatUSD 999999999999999945575230987042816 = ''$1e+21T'' \<and>
   formatUSD 999999999999999945575230987042816 \<noteq>
     ''$'' @ spec_two_decimals (double_div 999999999999999945575230987042816 (10 ^ 12)) @ ''T''"
proof -
  have lit: "round_double (10 ^ 33) = 999999999999999945575230987042816"
  proof -
    have "binary_exponent (10 ^ 33) = 109"
      by (simp add: binary_exponent_def bit_length.simps)
    moreover have "round_half_even (10 ^ 33 / pow2 (109 - 52)) = 6938893903907228"
      by (simp add: pow2_def round_half_even_def Let_def)
    ultimately have "round_double (10 ^ 33) = of_int 6938893903907228 * pow2 (109 - 52)"
      by (intro round_double_eval) simp_all
    then show ?thesis
      by (simp add: pow2_def)
  qed
  have rd: "round_double (m * 10 ^ 21) = of_int s * pow2 (e - 52)"
    if "binary_exponent (m * 10 ^ 21) = e" and "- 1022 \<le> e" and "0 < m"
      and "round_half_even (m * 10 ^ 21 / pow2 (e - 52)) = s" for m e s
    using that by (intro round_double_eval) simp_all
  have r1: "round_double (10 ^ 21) = 10 ^ 21"
    using rd [of 1 69 7629394531250000]
    by (simp add: binary_exponent_def bit_length.simps pow2_def round_half_even_def Let_def)
  have r2: "round_double (2 * 10 ^ 21) = 2 * 10 ^ 21"
    using rd [of 2 70 7629394531250000]
    by (simp add: binary_exponent_def bit_length.simps pow2_def round_half_even_def Let_def)
  have r10: "round_double (10 * 10 ^ 21) = 10 * 10 ^ 21"
    using rd [of 10 73 4768371582031250]
    by (simp add: binary_exponent_def bit_length.simps pow2_def round_half_even_def Let_def)
  have q: "double_div 999999999999999945575230987042816 1000000000000 =
      1000000000000000000000"
  proof -
    have "binary_exponent (999999999999999945575230987042816 / 10 ^ 12) = 69"
      by (simp add: binary_exponent_def bit_length.simps)
    moreover have "round_half_even
        (999999999999999945575230987042816 / 10 ^ 12 / pow2 (69 - 52)) = 7629394531250000"
      by (simp add: pow2_def round_half_even_def Let_def)
    ultimately have "round_double (999999999999999945575230987042816 / 10 ^ 12) =
        of_int 7629394531250000 * pow2 (69 - 52)"
      by (intro round_double_eval) simp_all
    then show ?thesis
      by (simp add: double_div_def pow2_def)
  qed
  have digits: "length (dec 1000000000000000000000) = 22"
    by (simp add: dec.simps)
  have cands: "shortest_candidates 1000000000000000000000 1 = [(1, 22)]"
    using r1 r2 r10 by (simp add: shortest_candidates_def digits Let_def)
  have first: "find (\<lambda>k. shortest_candidates 1000000000000000000000 k \<noteq> [])
      [1, 2, 3, 4, 5, 6, 7, 8, 9, 10, 11, 12, 13, 14, 15, 16, 17] = Some 1"
    by (simp only: find.simps cands list.distinct not_False_eq_True if_True)
  have str: "exponent_notation 1000000000000000000000 = ''1e+21''"
    unfolding exponent_notation_def first option.case cands arg_min_list.simps Let_def prod.case
    by (simp add: dec.simps)
  have fmt: "formatUSD 999999999999999945575230987042816 = ''$1e+21T''"
    by (simp add: formatUSD_def q toFixed_def str Let_def)
  have two: "spec_two_decimals (10 ^ 21) = ''1000000000000000000000.00''"
    by (simp add: spec_two_decimals_def dec.simps)
  from lit q fmt two show ?thesis
    by simp
qed

text \<open>
  Claim C9. For the amount 0 the estimator returns the whole base population in either
  mode: 100,000,000 addresses, or 8,000,000,000 people.
\<close>

theorem C9_zero_amount_full_base:
  "calculateExclusivity 0 False = Some 100000000 \<and>
   calculateExclusivity 0 True = Some 8000000000"
  by (simp add: calculateExclusivity_def constants_defs)

text \<open>
  Claim C10. The estimator returns for every Number: \<open>null\<close> for every amount above the
  maximum supply, whatever the mode, and a natural number for every other amount; for
  an amount from 0 to the largest known holding that number is at most the base
  population of the mode, 8,000,000,000 people or 100,000,000 addresses.
\<close>

theorem C10_estimator_total_and_bounded:
  "(MAX_BITCOIN_SUPPLY < btc \<longrightarrow> calculateExclusivity btc isGlobal = None) \<and>
   (btc \<le> MAX_BITCOIN_SUPPLY \<longrightarrow>
      (\<exists>n :: nat. calculateExclusivity btc isGlobal = Some (of_nat n))) \<and>
   (0 \<le> btc \<and> btc \<le> LARGEST_KNOWN_HOLDING \<longrightarrow>
      (\<exists>n :: nat. calculateExclusivity btc isGlobal = Some (of_nat n) \<and>
         n \<le> (if isGlobal then 8000000000 else 100000000)))"
  by (simp add: calculateExclusivity_def constants_defs Math_round_def)

text \<open>An amount above the supply, and the amount 5 in each mode.\<close>

theorem C10_estimator_total_and_bounded_witness:
  "MAX_BITCOIN_SUPPLY < 21000001 \<and> calculateExclusivity 21000001 True = None \<and>
   (0::rat) \<le> 5 \<and> 5 \<le> LARGEST_KNOWN_HOLDING \<and> 5 \<le> MAX_BITCOIN_SUPPLY \<and>
   (\<exists>n :: nat. calculateExclusivity 5 False = Some (of_nat n) \<and> n \<le> 100000000) \<and>
   (\<exists>n :: nat. calculateExclusivity 5 True = Some (of_nat n) \<and> n \<le> 8000000000)"
  using C10_estimator_total_and_bounded [of 21000001 True]
    C10_estimator_total_and_bounded [of 5 False]
    C10_estimator_total_and_bounded [of 5 True]
  by (simp add: constants_defs)

end
